theory Spec2Isabelle
  imports Complex_Main
begin

section \<open>FormBridge Python SDK: the request and retry engine\<close>

text \<open>
  A shallow embedding of \<^verbatim>\<open>formbridge/client.py\<close>, \<^verbatim>\<open>formbridge/errors.py\<close> and
  \<^verbatim>\<open>formbridge/types.py\<close>.

  Modelling decisions:
  \<^item> The HTTP transport (\<^verbatim>\<open>httpx.AsyncClient.request\<close>) is the environment. It is a
    function that, given the method, the path, the JSON body and the 0-based number of
    the attempt within one logical call, says what that attempt produces.
  \<^item> The observable effects of a call (HTTP attempts and back-off sleeps) are returned
    as a list of events, in the order in which they happen.
  \<^item> Exceptions are values: every \<^verbatim>\<open>raise\<close> of the source is a branch of the model.
    Only subclasses of \<^verbatim>\<open>Exception\<close> are modelled; cancellation and keyboard
    interrupts are not.
  \<^item> Logging is left out: it has no influence on the control flow or on the result.
  \<^item> Python floats that come from JSON numbers, and the back-off durations, are reals.
\<close>

subsection \<open>Python values decoded from JSON\<close>

text \<open>What \<^verbatim>\<open>json.loads\<close> produces. \<open>JNull\<close> is Python's \<^verbatim>\<open>None\<close>; a \<^verbatim>\<open>dict\<close> is
  an association list whose first binding for a key is the one that counts.\<close>

datatype json =
    JNull
  | JBool bool
  | JInt int
  | JFloat real
  | JStr string
  | JList "json list"
  | JDict "(string \<times> json) list"

text \<open>\<^verbatim>\<open>type(v).__name__\<close>\<close>

fun type_name :: "json \<Rightarrow> string" where
  "type_name JNull = ''NoneType''"
| "type_name (JBool _) = ''bool''"
| "type_name (JInt _) = ''int''"
| "type_name (JFloat _) = ''float''"
| "type_name (JStr _) = ''str''"
| "type_name (JList _) = ''list''"
| "type_name (JDict _) = ''dict''"

text \<open>\<^verbatim>\<open>isinstance(v, dict)\<close>\<close>

fun is_dict :: "json \<Rightarrow> bool" where
  "is_dict (JDict _) = True"
| "is_dict _ = False"

text \<open>Python truthiness, as used by \<^verbatim>\<open>if not sub.intake_id\<close> and \<^verbatim>\<open>if fields\<close>.\<close>

fun truthy :: "json \<Rightarrow> bool" where
  "truthy JNull = False"
| "truthy (JBool b) = b"
| "truthy (JInt i) = (i \<noteq> 0)"
| "truthy (JFloat r) = (r \<noteq> 0)"
| "truthy (JStr s) = (s \<noteq> [])"
| "truthy (JList xs) = (xs \<noteq> [])"
| "truthy (JDict kvs) = (kvs \<noteq> [])"

text \<open>The message of the \<^verbatim>\<open>AttributeError\<close> that Python raises for \<^verbatim>\<open>v.get\<close> on a value
  without that attribute.\<close>

definition no_attribute :: "json \<Rightarrow> string \<Rightarrow> string" where
  "no_attribute v a =
     [CHR 0x27] @ type_name v @ [CHR 0x27] @ '' object has no attribute '' @
     [CHR 0x27] @ a @ [CHR 0x27]"

text \<open>\<^verbatim>\<open>v.get(k, d)\<close>: the lookup on a dict, an \<^verbatim>\<open>AttributeError\<close> (\<open>Inl\<close> of its
  message) on anything else.\<close>

definition dict_get :: "(string \<times> json) list \<Rightarrow> string \<Rightarrow> json \<Rightarrow> json" where
  "dict_get kvs k d = (case map_of kvs k of None \<Rightarrow> d | Some v \<Rightarrow> v)"

fun py_get :: "json \<Rightarrow> string \<Rightarrow> json \<Rightarrow> string + json" where
  "py_get (JDict kvs) k d = Inr (dict_get kvs k d)"
| "py_get v k d = Inl (no_attribute v ''get'')"

text \<open>\<^verbatim>\<open>str(n)\<close> for an integer, as the f-string \<^verbatim>\<open>f"HTTP {resp.status_code}"\<close> needs it.\<close>

definition digit :: "nat \<Rightarrow> char" where
  "digit d = ''0123456789'' ! d"

fun digits :: "nat \<Rightarrow> string" where
  "digits n = (if n < 10 then [digit n] else digits (n div 10) @ [digit (n mod 10)])"

definition str_int :: "int \<Rightarrow> string" where
  "str_int i = (if i < 0 then CHR ''-'' # digits (nat (- i)) else digits (nat i))"

text \<open>The slice \<^verbatim>\<open>xs[:n]\<close>: a negative bound counts from the end.\<close>

definition slice_to :: "'a list \<Rightarrow> int \<Rightarrow> 'a list" where
  "slice_to xs n =
     (if 0 \<le> n then take (nat n) xs else take (nat (int (length xs) + n)) xs)"

subsection \<open>errors.py\<close>

text \<open>The attributes of a \<^verbatim>\<open>FormBridgeError\<close>. The message is whatever object was passed
  to the constructor: a string, or any JSON value found under \<^verbatim>\<open>error.message\<close>.
  An unset \<^verbatim>\<open>error_type\<close> or \<^verbatim>\<open>response_data\<close> is \<open>JNull\<close>.\<close>

record formbridge_error =
  message :: json
  status_code :: "int option"
  error_type :: json
  is_connectivity_error :: bool
  response_data :: json

text \<open>The constructor \<^verbatim>\<open>FormBridgeError.__init__\<close> with its keyword defaults.\<close>

definition FormBridgeError ::
  "json \<Rightarrow> int option \<Rightarrow> json \<Rightarrow> bool \<Rightarrow> json \<Rightarrow> formbridge_error" where
  "FormBridgeError msg sc et conn rd =
     \<lparr>message = msg, status_code = sc, error_type = et,
      is_connectivity_error = conn, response_data = rd\<rparr>"

text \<open>\<^verbatim>\<open>FormBridgeError(msg, is_connectivity_error=True)\<close>\<close>

definition connectivity_error :: "string \<Rightarrow> formbridge_error" where
  "connectivity_error msg = FormBridgeError (JStr msg) None JNull True JNull"

text \<open>The exceptions that can leave the client.\<close>

datatype exn =
    FormBridge formbridge_error
  | RuntimeError string
  | AttributeError string

subsection \<open>client.py: constants\<close>

definition RETRY_BACKOFFS :: "real list" where
  "RETRY_BACKOFFS = [1 / 2, 1, 2]"

definition RETRYABLE_STATUS :: "int set" where
  "RETRYABLE_STATUS = {429, 500, 502, 503, 504}"

subsection \<open>The transport\<close>

text \<open>What one \<^verbatim>\<open>await self._http.request(...)\<close> produces:
  \<^item> \<open>Response status body\<close>: an HTTP response; \<open>body\<close> is what \<^verbatim>\<open>resp.json()\<close> will
    do, \<open>Inr\<close> of the decoded value or \<open>Inl\<close> of the text of the exception it raises;
  \<^item> \<open>ConnectFailure msg\<close>: \<^verbatim>\<open>httpx.ConnectError\<close>, \<^verbatim>\<open>httpx.TimeoutException\<close> or
    \<^verbatim>\<open>httpx.ConnectTimeout\<close>, with \<^verbatim>\<open>str(exc)\<close>;
  \<^item> \<open>OtherFailure msg\<close>: any other \<^verbatim>\<open>Exception\<close>, with \<^verbatim>\<open>str(exc)\<close>.\<close>

datatype attempt_outcome =
    Response int "string + json"
  | ConnectFailure string
  | OtherFailure string

type_synonym transport = "string \<Rightarrow> string \<Rightarrow> json \<Rightarrow> nat \<Rightarrow> attempt_outcome"

datatype event = HttpRequest | Sleep real

subsection \<open>client.py: \<^verbatim>\<open>FormBridgeClient._request\<close>\<close>

text \<open>How one iteration of the loop, or the loop itself, ends.\<close>

datatype loop_exit =
    Return json
  | Raise formbridge_error
  | Exhausted "string option"

text \<open>The handler \<^verbatim>\<open>except Exception as exc\<close>.\<close>

definition unexpected_error :: "string \<Rightarrow> loop_exit" where
  "unexpected_error exc = Raise (connectivity_error (''Unexpected error: '' @ exc))"

text \<open>Lines 252 to 263: decode the body, then raise the API error or return the data.
  An exception of \<^verbatim>\<open>resp.json()\<close> or of a \<^verbatim>\<open>.get\<close> is caught by
  \<^verbatim>\<open>except Exception\<close>; the \<^verbatim>\<open>FormBridgeError\<close> raised here is re-raised as it is.\<close>

definition handle_response :: "int \<Rightarrow> string + json \<Rightarrow> loop_exit" where
  "handle_response status body =
     (case body of
        Inl exc \<Rightarrow> unexpected_error exc
      | Inr data \<Rightarrow>
          if status \<ge> 400 then
            (case (if is_dict data then py_get data ''error'' (JDict []) else Inr (JDict [])) of
               Inl exc \<Rightarrow> unexpected_error exc
             | Inr error_info \<Rightarrow>
                (case py_get error_info ''message'' (JStr (''HTTP '' @ str_int status)) of
                   Inl exc \<Rightarrow> unexpected_error exc
                 | Inr msg \<Rightarrow>
                    (case py_get error_info ''type'' JNull of
                       Inl exc \<Rightarrow> unexpected_error exc
                     | Inr et \<Rightarrow> Raise (FormBridgeError msg (Some status) et False data))))
          else Return data)"

text \<open>The loop \<^verbatim>\<open>for attempt in range(1 + len(backoffs))\<close>, from iteration \<open>attempt\<close>
  on, with the current \<^verbatim>\<open>last_exc\<close>. \<open>send\<close> is the transport applied to the request of
  this call. Falling out of the loop is \<open>Exhausted\<close>.\<close>

function request_loop ::
  "(nat \<Rightarrow> attempt_outcome) \<Rightarrow> real list \<Rightarrow> nat \<Rightarrow> string option \<Rightarrow> event list \<times> loop_exit" where
  "request_loop send backoffs attempt last_exc =
     (if attempt < 1 + length backoffs then
        (case send attempt of
           Response status body \<Rightarrow>
             if status \<in> RETRYABLE_STATUS \<and> attempt < length backoffs then
               (case request_loop send backoffs (attempt + 1) last_exc of
                  (evs, r) \<Rightarrow> (HttpRequest # Sleep (backoffs ! attempt) # evs, r))
             else ([HttpRequest], handle_response status body)
         | ConnectFailure exc \<Rightarrow>
             if attempt < length backoffs then
               (case request_loop send backoffs (attempt + 1) (Some exc) of
                  (evs, r) \<Rightarrow> (HttpRequest # Sleep (backoffs ! attempt) # evs, r))
             else ([HttpRequest], Raise (connectivity_error (''Connection failed: '' @ exc)))
         | OtherFailure exc \<Rightarrow> ([HttpRequest], unexpected_error exc))
      else ([], Exhausted last_exc))"
  by pat_completeness auto
termination
  by (relation "measure (\<lambda>(send, backoffs, attempt, last_exc). 1 + length backoffs - attempt)")
     auto

text \<open>The code after the loop (lines 289 to 295), together with what a \<^verbatim>\<open>return\<close> or
  a \<^verbatim>\<open>raise\<close> inside the loop hands to the caller. An exception object is always
  true, so \<^verbatim>\<open>if last_exc\<close> asks whether one was recorded.\<close>

definition after_loop :: "loop_exit \<Rightarrow> exn + json" where
  "after_loop r =
     (case r of
        Return data \<Rightarrow> Inr data
      | Raise e \<Rightarrow> Inl (FormBridge e)
      | Exhausted (Some last_exc) \<Rightarrow>
          Inl (FormBridge (connectivity_error (''Connection failed after retries: '' @ last_exc)))
      | Exhausted None \<Rightarrow> Inl (RuntimeError ''Retry loop exhausted unexpectedly''))"

text \<open>\<^verbatim>\<open>_request\<close>: the slice of the module's back-off table by \<^verbatim>\<open>max_retries\<close>, then
  the loop from attempt 0 with no exception recorded. \<open>retry_backoffs\<close> is the value of
  the module variable \<^verbatim>\<open>_RETRY_BACKOFFS\<close> at the time of the call.\<close>

definition request ::
  "transport \<Rightarrow> int \<Rightarrow> real list \<Rightarrow> string \<Rightarrow> string \<Rightarrow> json \<Rightarrow> event list \<times> (exn + json)" where
  "request http max_retries retry_backoffs method path json_data =
     (let backoffs = slice_to retry_backoffs max_retries in
      case request_loop (http method path json_data) backoffs 0 None of
        (evs, r) \<Rightarrow> (evs, after_loop r))"

subsection \<open>types.py\<close>

record actor =
  kind :: string
  id_actor :: string
  name :: "string option"

text \<open>The dataclass \<^verbatim>\<open>Submission\<close>. Its fields hold whatever the response holds, so
  they are JSON values; an unset optional field is \<open>JNull\<close>.\<close>

record submission =
  submission_id :: json
  intake_id :: json
  state :: json
  resume_token :: json
  fields_sub :: json
  missing_fields :: json
  schema :: json
  created_at :: json
  updated_at :: json
  raw :: json

text \<open>\<^verbatim>\<open>Submission.from_response\<close>. On a value that is not a dict the first
  \<^verbatim>\<open>data.get\<close> raises an \<^verbatim>\<open>AttributeError\<close>.\<close>

fun from_response :: "json \<Rightarrow> string + submission" where
  "from_response (JDict data) =
     Inr \<lparr>submission_id = dict_get data ''submissionId'' (JStr []),
          intake_id = dict_get data ''intakeId'' (JStr []),
          state = dict_get data ''state'' (JStr []),
          resume_token = dict_get data ''resumeToken'' JNull,
          fields_sub = dict_get data ''fields'' (JDict []),
          missing_fields = dict_get data ''missingFields'' JNull,
          schema = dict_get data ''schema'' JNull,
          created_at =
            (case dict_get data ''metadata'' JNull of
               JDict md \<Rightarrow> dict_get md ''createdAt'' JNull
             | _ \<Rightarrow> dict_get data ''createdAt'' JNull),
          updated_at =
            (case dict_get data ''metadata'' JNull of
               JDict md \<Rightarrow> dict_get md ''updatedAt'' JNull
             | _ \<Rightarrow> dict_get data ''updatedAt'' JNull),
          raw = JDict data\<rparr>"
| "from_response v = Inl (no_attribute v ''get'')"

subsection \<open>client.py: the public operations\<close>

text \<open>\<^verbatim>\<open>_serialize_actor\<close>, for an actor that is not \<^verbatim>\<open>None\<close>.\<close>

definition serialize_actor :: "actor \<Rightarrow> json" where
  "serialize_actor a =
     JDict ([(''kind'', JStr (kind a)), (''id'', JStr (id_actor a))] @
            (case name a of None \<Rightarrow> [] | Some n \<Rightarrow> [(''name'', JStr n)]))"

text \<open>The request body of \<^verbatim>\<open>create_submission\<close>. \<open>flds\<close> is \<open>JNull\<close> when the
  caller passes no fields; a dataclass instance is always true.\<close>

definition create_body :: "json \<Rightarrow> actor option \<Rightarrow> string option \<Rightarrow> json" where
  "create_body flds act idempotency_key =
     JDict ((if truthy flds then [(''fields'', flds)] else []) @
            (case act of None \<Rightarrow> [] | Some a \<Rightarrow> [(''actor'', serialize_actor a)]) @
            (case idempotency_key of
               None \<Rightarrow> []
             | Some k \<Rightarrow> if k \<noteq> [] then [(''idempotencyKey'', JStr k)] else []))"

text \<open>\<^verbatim>\<open>create_submission\<close>: the request, the parse, and the intake id filled in
  when the parsed one is false.\<close>

definition create_submission ::
  "transport \<Rightarrow> int \<Rightarrow> real list \<Rightarrow> string \<Rightarrow> json \<Rightarrow> actor option \<Rightarrow> string option
     \<Rightarrow> event list \<times> (exn + submission)" where
  "create_submission http max_retries retry_backoffs iid flds act idempotency_key =
     (case request http max_retries retry_backoffs ''POST''
             (''/intake/'' @ iid @ ''/submissions'') (create_body flds act idempotency_key) of
        (evs, Inl e) \<Rightarrow> (evs, Inl e)
      | (evs, Inr data) \<Rightarrow>
          (case from_response data of
             Inl exc \<Rightarrow> (evs, Inl (AttributeError exc))
           | Inr sub \<Rightarrow>
               if \<not> truthy (intake_id sub) then
                 (evs, Inr \<lparr>submission_id = submission_id sub,
                             intake_id = JStr iid,
                             state = state sub,
                             resume_token = resume_token sub,
                             fields_sub = fields_sub sub,
                             missing_fields = missing_fields sub,
                             schema = schema sub,
                             created_at = created_at sub,
                             updated_at = updated_at sub,
                             raw = raw sub\<rparr>)
               else (evs, Inr sub)))"

text \<open>\<^verbatim>\<open>get_submission\<close>: no request body (\<^verbatim>\<open>json_data=None\<close>).\<close>

definition get_submission ::
  "transport \<Rightarrow> int \<Rightarrow> real list \<Rightarrow> string \<Rightarrow> string \<Rightarrow> event list \<times> (exn + submission)" where
  "get_submission http max_retries retry_backoffs iid sid =
     (case request http max_retries retry_backoffs ''GET''
             (''/intake/'' @ iid @ ''/submissions/'' @ sid) JNull of
        (evs, Inl e) \<Rightarrow> (evs, Inl e)
      | (evs, Inr data) \<Rightarrow>
          (case from_response data of
             Inl exc \<Rightarrow> (evs, Inl (AttributeError exc))
           | Inr sub \<Rightarrow> (evs, Inr sub)))"

subsection \<open>Reading a trace\<close>

text \<open>The number of HTTP attempts among the events of a call.\<close>

fun http_attempts :: "event list \<Rightarrow> nat" where
  "http_attempts [] = 0"
| "http_attempts (HttpRequest # evs) = Suc (http_attempts evs)"
| "http_attempts (Sleep d # evs) = http_attempts evs"

text \<open>The events of a call that retries once for each of the given back-offs, in order,
  and then makes its last attempt: every retry is a sleep of its back-off between two
  attempts.\<close>

fun retry_trace :: "real list \<Rightarrow> event list" where
  "retry_trace [] = [HttpRequest]"
| "retry_trace (b # bs) = HttpRequest # Sleep b # retry_trace bs"

text \<open>A decoded body on which the extraction of the error envelope raises nothing: a
  value that is not a dict, or a dict whose \<^verbatim>\<open>error\<close> entry is absent or a dict.\<close>

fun envelope_ok :: "json \<Rightarrow> bool" where
  "envelope_ok (JDict data) = is_dict (dict_get data ''error'' (JDict []))"
| "envelope_ok v = True"

text \<open>An attempt whose outcome lets the loop go on while a back-off is left: a response
  with a retryable status, or a connection failure.\<close>

fun retried :: "attempt_outcome \<Rightarrow> bool" where
  "retried (Response status body) = (status \<in> RETRYABLE_STATUS)"
| "retried (ConnectFailure exc) = True"
| "retried (OtherFailure exc) = False"

text \<open>How the call ends at an attempt that is not retried.\<close>

definition terminal_exit :: "attempt_outcome \<Rightarrow> loop_exit" where
  "terminal_exit out =
     (case out of
        Response status body \<Rightarrow> handle_response status body
      | ConnectFailure exc \<Rightarrow> Raise (connectivity_error (''Connection failed: '' @ exc))
      | OtherFailure exc \<Rightarrow> unexpected_error exc)"

text \<open>The attempt produced an HTTP response.\<close>

fun is_response :: "attempt_outcome \<Rightarrow> bool" where
  "is_response (Response status body) = True"
| "is_response out = False"

text \<open>An outcome is conforming unless it is a response whose body does not decode, or an
  error response whose decoded body has an \<^verbatim>\<open>error\<close> entry that is not a dict.\<close>

fun conforming :: "attempt_outcome \<Rightarrow> bool" where
  "conforming (Response status (Inr data)) = (status < 400 \<or> envelope_ok data)"
| "conforming (Response status (Inl exc)) = False"
| "conforming out = True"

text \<open>The call raised a \<^verbatim>\<open>FormBridgeError\<close> whose connectivity flag is set.\<close>

definition connectivity_raised :: "exn + json \<Rightarrow> bool" where
  "connectivity_raised r =
     (case r of Inl (FormBridge e) \<Rightarrow> is_connectivity_error e | _ \<Rightarrow> False)"

subsection \<open>Transports for concrete runs\<close>

text \<open>A transport that produces the same outcome at every attempt, and one that plays
  a list of outcomes in order and then produces \<open>rest\<close>.\<close>

definition always :: "attempt_outcome \<Rightarrow> transport" where
  "always out = (\<lambda>method path json_data attempt. out)"

definition scripted :: "attempt_outcome list \<Rightarrow> attempt_outcome \<Rightarrow> transport" where
  "scripted outs rest =
     (\<lambda>method path json_data attempt. if attempt < length outs then outs ! attempt else rest)"

section \<open>The retry loop, step by step\<close>

declare request_loop.simps [simp del]

lemma http_attempts_retry_trace: "http_attempts (retry_trace bs) = length bs + 1"
  by (induction bs) simp_all

lemma not_retryable_below_400: "s < 400 \<Longrightarrow> s \<notin> RETRYABLE_STATUS"
  by (auto simp: RETRYABLE_STATUS_def)

lemma slice_to_nonneg: "0 \<le> n \<Longrightarrow> slice_to xs n = take (nat n) xs"
  by (simp add: slice_to_def)

lemma loop_stop:
  assumes "attempt \<le> length backoffs" "\<not> retried (send attempt) \<or> attempt = length backoffs"
  shows "request_loop send backoffs attempt le = ([HttpRequest], terminal_exit (send attempt))"
  using assms
  by (subst request_loop.simps) (auto simp: terminal_exit_def split: attempt_outcome.splits)

lemma loop_retry:
  assumes "attempt < length backoffs" "retried (send attempt)"
  shows "request_loop send backoffs attempt le =
           (case request_loop send backoffs (Suc attempt)
                   (case send attempt of ConnectFailure exc \<Rightarrow> Some exc | _ \<Rightarrow> le) of
              (evs, r) \<Rightarrow> (HttpRequest # Sleep (backoffs ! attempt) # evs, r))"
  using assms
  by (subst request_loop.simps) (auto split: attempt_outcome.splits prod.splits)

lemma loop_run:
  assumes "attempt \<le> a" "a \<le> length backoffs"
    and "\<And>k. attempt \<le> k \<Longrightarrow> k < a \<Longrightarrow> retried (send k)"
    and "\<not> retried (send a) \<or> a = length backoffs"
  shows "request_loop send backoffs attempt le =
           (retry_trace (take (a - attempt) (drop attempt backoffs)), terminal_exit (send a))"
  using assms
proof (induction "a - attempt" arbitrary: attempt le)
  case 0
  then have "attempt = a" by simp
  with 0 show ?case
    using loop_stop[of a backoffs send le] by simp
next
  case (Suc n)
  then have lt: "attempt < length backoffs" and r: "retried (send attempt)" by auto
  have ih: "request_loop send backoffs (Suc attempt) le' =
           (retry_trace (take (a - Suc attempt) (drop (Suc attempt) backoffs)), terminal_exit (send a))" for le'
    using Suc.prems Suc.hyps(2) by (intro Suc.hyps(1)) auto
  have "take (a - attempt) (drop attempt backoffs) =
          backoffs ! attempt # take (a - Suc attempt) (drop (Suc attempt) backoffs)"
    using lt Suc.hyps(2) by (metis Cons_nth_drop_Suc take_Suc_Cons diff_Suc_eq_diff_pred Suc_diff_Suc Suc.prems(1) diff_Suc_1 le_neq_implies_less diff_is_0_eq nat.distinct(1))
  then show ?case
    using loop_retry[of attempt backoffs send le] lt r by (simp add: ih)
qed

lemma stop_index:
  "\<exists>a\<le>n::nat. (\<forall>k<a. retried (send k)) \<and> (\<not> retried (send a) \<or> a = n)"
proof (cases "\<forall>k<n. retried (send k)")
  case True
  then show ?thesis by (intro exI[of _ n]) simp
next
  case False
  then obtain k where k: "k < n" "\<not> retried (send k)" by auto
  define a where "a = (LEAST k. \<not> retried (send k))"
  have "\<not> retried (send a)" unfolding a_def using k(2) by (rule LeastI)
  moreover have "a \<le> k" unfolding a_def using k(2) by (rule Least_le)
  moreover have "\<forall>i<a. retried (send i)" unfolding a_def using not_less_Least by blast
  ultimately show ?thesis using k(1) by (intro exI[of _ a]) auto
qed

lemma request_run:
  "\<exists>a\<le>length (slice_to B R).
      (\<forall>k<a. retried (http m p j k)) \<and>
      (\<not> retried (http m p j a) \<or> a = length (slice_to B R)) \<and>
      request http R B m p j =
        (retry_trace (take a (slice_to B R)), after_loop (terminal_exit (http m p j a)))"
proof -
  obtain a where a: "a \<le> length (slice_to B R)" "\<forall>k<a. retried (http m p j k)"
      "\<not> retried (http m p j a) \<or> a = length (slice_to B R)"
    using stop_index[of "length (slice_to B R)" "http m p j"] by blast
  have "request_loop (http m p j) (slice_to B R) 0 None =
          (retry_trace (take (a - 0) (drop 0 (slice_to B R))), terminal_exit (http m p j a))"
    using a by (intro loop_run) auto
  then have "request http R B m p j =
        (retry_trace (take a (slice_to B R)), after_loop (terminal_exit (http m p j a)))"
    by (simp add: request_def)
  with a show ?thesis by blast
qed

lemma terminal_exit_not_exhausted: "terminal_exit out \<noteq> Exhausted x"
  by (auto simp: terminal_exit_def handle_response_def unexpected_error_def
      split: attempt_outcome.splits sum.splits)

lemma after_terminal_cases:
  "(\<exists>d. after_loop (terminal_exit out) = Inr d) \<or>
   (\<exists>e. after_loop (terminal_exit out) = Inl (FormBridge e))"
  using terminal_exit_not_exhausted[of out]
  by (cases "terminal_exit out") (auto simp: after_loop_def)

lemma handle_response_api:
  assumes "400 \<le> s" "envelope_ok d"
  shows "\<exists>msg et. handle_response s (Inr d) = Raise (FormBridgeError msg (Some s) et False d)"
proof (cases d)
  case (JDict data)
  with assms(2) obtain ei where "dict_get data ''error'' (JDict []) = JDict ei"
    by (cases "dict_get data ''error'' (JDict [])") auto
  with JDict assms(1) show ?thesis by (auto simp: handle_response_def)
qed (use assms in \<open>auto simp: handle_response_def\<close>)

lemma handle_response_success: "s < 400 \<Longrightarrow> handle_response s (Inr d) = Return d"
  by (simp add: handle_response_def)

lemma flagged_no_status:
  assumes "after_loop (terminal_exit out) = Inl (FormBridge e)" "is_connectivity_error e"
  shows "status_code e = None"
  using assms
  by (auto simp: after_loop_def terminal_exit_def handle_response_def unexpected_error_def
        connectivity_error_def FormBridgeError_def
      split: attempt_outcome.splits sum.splits if_splits)

lemma flagged_no_response:
  assumes "after_loop (terminal_exit out) = Inl (FormBridge e)" "is_connectivity_error e"
    "conforming out"
  shows "\<not> is_response out"
proof
  assume "is_response out"
  then obtain s body where out: "out = Response s body" by (cases out) auto
  with assms(3) obtain d where body: "body = Inr d" and ok: "s < 400 \<or> envelope_ok d"
    by (cases body) auto
  show False
  proof (cases "s < 400")
    case True
    with assms(1) out body show False
      by (simp add: terminal_exit_def handle_response_success after_loop_def)
  next
    case False
    with ok have "400 \<le> s" "envelope_ok d" by auto
    from handle_response_api[OF this] assms(1,2) out body show False
      by (auto simp: terminal_exit_def after_loop_def FormBridgeError_def)
  qed
qed

text \<open>A status outside the retryable set ends the call at the first attempt; the API
  error that a usable body gives.\<close>

lemma non_retryable_single_attempt:
  assumes "http m p j 0 = Response s body" "s \<notin> RETRYABLE_STATUS"
  shows "request http R B m p j = ([HttpRequest], after_loop (handle_response s body))"
proof -
  have "request_loop (http m p j) (slice_to B R) 0 None =
      ([HttpRequest], terminal_exit (http m p j 0))"
    using assms by (intro loop_stop) simp_all
  with assms(1) show ?thesis by (simp add: request_def terminal_exit_def)
qed

lemma api_error_of_envelope:
  assumes "400 \<le> s" "dict_get data ''error'' (JDict []) = JDict ei"
  shows "handle_response s (Inr (JDict data)) =
     Raise \<lparr>message = dict_get ei ''message'' (JStr (''HTTP '' @ str_int s)),
            status_code = Some s, error_type = dict_get ei ''type'' JNull,
            is_connectivity_error = False, response_data = JDict data\<rparr>"
  using assms by (simp add: handle_response_def FormBridgeError_def)

lemma api_error_of_non_dict:
  assumes "400 \<le> s" "\<not> is_dict d"
  shows "handle_response s (Inr d) =
     Raise \<lparr>message = JStr (''HTTP '' @ str_int s), status_code = Some s, error_type = JNull,
            is_connectivity_error = False, response_data = d\<rparr>"
  using assms by (simp add: handle_response_def FormBridgeError_def dict_get_def)

text \<open>Attempt \<open>a\<close> is made when there is a back-off for every attempt before it and each
  of them is retried.\<close>

lemma attempt_reached:
  assumes "a \<le> length (slice_to B R)" and "\<forall>k<a. retried (http m p j k)"
  shows "a < http_attempts (fst (request http R B m p j))"
proof -
  obtain k where k: "k \<le> length (slice_to B R)"
    "\<not> retried (http m p j k) \<or> k = length (slice_to B R)"
    "request http R B m p j =
       (retry_trace (take k (slice_to B R)), after_loop (terminal_exit (http m p j k)))"
    using request_run[of B R http m p j] by blast
  have "a \<le> k" using assms k(2) by (cases "k < a") auto
  with k(1,3) show ?thesis by (simp add: http_attempts_retry_trace min_def)
qed

text \<open>For \<open>max_retries = R \<ge> 0\<close> and any back-off table \<open>B\<close>, a call makes \<open>k + 1\<close> attempts
  for some \<open>k \<le> R\<close>; its events are attempt 0, a sleep of \<open>B[0]\<close>, attempt 1, a sleep of
  \<open>B[1]\<close>, and so on up to attempt \<open>k\<close>; it ends in a returned body or a
  \<^verbatim>\<open>FormBridgeError\<close>; when every response has a retryable status all back-offs of the
  slice are used; and four 502 responses in a row, the last with a decoded body whose
  error envelope is usable, end in an API error with status 502 after 4 attempts.\<close>

lemma retry_bound_and_trace:
  assumes "0 \<le> R"
  shows "(\<exists>k. k \<le> nat R \<and> k \<le> length B \<and>
            fst (request http R B m p j) = retry_trace (take k B) \<and>
            http_attempts (fst (request http R B m p j)) = k + 1) \<and>
         http_attempts (fst (request http R B m p j)) \<le> nat R + 1 \<and>
         ((\<exists>d. snd (request http R B m p j) = Inr d) \<or>
          (\<exists>e. snd (request http R B m p j) = Inl (FormBridge e))) \<and>
         ((\<forall>k. \<exists>s body. http m p j k = Response s body \<and> s \<in> RETRYABLE_STATUS) \<longrightarrow>
            fst (request http R B m p j) = retry_trace (take (nat R) B)) \<and>
         (R = 3 \<and> 3 \<le> length B \<and> (\<forall>k<4. \<exists>body. http m p j k = Response 502 body) \<and>
          (\<exists>d. http m p j 3 = Response 502 (Inr d) \<and> envelope_ok d) \<longrightarrow>
            http_attempts (fst (request http R B m p j)) = 4 \<and>
            (\<exists>e. snd (request http R B m p j) = Inl (FormBridge e) \<and>
                 status_code e = Some 502 \<and> \<not> is_connectivity_error e))"
proof -
  let ?bs = "slice_to B R"
  have bs: "?bs = take (nat R) B" using assms by (rule slice_to_nonneg)
  obtain a where a: "a \<le> length ?bs" "\<forall>k<a. retried (http m p j k)"
    "\<not> retried (http m p j a) \<or> a = length ?bs"
    "request http R B m p j =
       (retry_trace (take a ?bs), after_loop (terminal_exit (http m p j a)))"
    using request_run[of B R http m p j] by blast
  have aR: "a \<le> nat R" and aB: "a \<le> length B" using a(1) bs by simp_all
  have tr: "fst (request http R B m p j) = retry_trace (take a B)"
    using a(4) aR bs by (simp add: min_def)
  have n: "http_attempts (fst (request http R B m p j)) = a + 1"
    using tr aB by (simp add: http_attempts_retry_trace min_def)
  have shape: "\<exists>k. k \<le> nat R \<and> k \<le> length B \<and>
            fst (request http R B m p j) = retry_trace (take k B) \<and>
            http_attempts (fst (request http R B m p j)) = k + 1"
    using aR aB tr n by blast
  have bound: "http_attempts (fst (request http R B m p j)) \<le> nat R + 1"
    using n aR by simp
  have outcome: "(\<exists>d. snd (request http R B m p j) = Inr d) \<or>
          (\<exists>e. snd (request http R B m p j) = Inl (FormBridge e))"
    using after_terminal_cases[of "http m p j a"] a(4) by simp
  have full: "fst (request http R B m p j) = retry_trace (take (nat R) B)"
    if all: "\<forall>k. \<exists>s body. http m p j k = Response s body \<and> s \<in> RETRYABLE_STATUS"
  proof -
    from all obtain s body where "http m p j a = Response s body" "s \<in> RETRYABLE_STATUS"
      by blast
    then have "retried (http m p j a)" by simp
    with a(3) have "take a ?bs = ?bs" by simp
    with a(4) have "fst (request http R B m p j) = retry_trace ?bs" by simp
    with bs show ?thesis by simp
  qed
  have scenario: "http_attempts (fst (request http R B m p j)) = 4 \<and>
            (\<exists>e. snd (request http R B m p j) = Inl (FormBridge e) \<and>
                 status_code e = Some 502 \<and> \<not> is_connectivity_error e)"
    if sc: "R = 3 \<and> 3 \<le> length B \<and> (\<forall>k<4. \<exists>body. http m p j k = Response 502 body) \<and>
          (\<exists>d. http m p j 3 = Response 502 (Inr d) \<and> envelope_ok d)"
  proof -
    from sc bs have len: "length ?bs = 3" by simp
    have "a = 3"
    proof (rule ccontr)
      assume "a \<noteq> 3"
      with a(1) len have "a < 4" "a \<noteq> length ?bs" by simp_all
      moreover from sc \<open>a < 4\<close> obtain body where "http m p j a = Response 502 body" by blast
      then have "retried (http m p j a)" by (simp add: RETRYABLE_STATUS_def)
      ultimately show False using a(3) by simp
    qed
    from sc obtain d where d: "http m p j 3 = Response 502 (Inr d)" "envelope_ok d" by blast
    from handle_response_api[of 502 d] d(2) obtain msg et where
      "handle_response 502 (Inr d) = Raise (FormBridgeError msg (Some 502) et False d)" by auto
    with d(1) \<open>a = 3\<close> a(4) n show ?thesis
      by (simp add: terminal_exit_def after_loop_def FormBridgeError_def)
  qed
  from shape bound outcome full scenario show ?thesis by blast
qed

text \<open>The equations that evaluate a concrete run.\<close>

lemmas run_defs = request_def slice_to_def RETRY_BACKOFFS_def RETRYABLE_STATUS_def
  request_loop.simps handle_response_def after_loop_def unexpected_error_def always_def
  scripted_def dict_get_def

section \<open>The claims\<close>

text \<open>C1. The claim asks that, with \<open>max_retries = 3\<close>, four 502 responses in a row end,
  after exactly 4 attempts, in an API error with \<open>status_code = 502\<close>. The bound of
  \<open>R + 1\<close> attempts, the sleeps between them and the single outcome hold for every run
  (\<open>retry_bound_and_trace\<close>), and so does the scenario when the last body has a usable
  error envelope. But when the four responses carry the decoded body
  \<^verbatim>\<open>{"error": "Bad Gateway"}\<close>, the call makes its 4 attempts and then the \<^verbatim>\<open>.get\<close> on the
  string raises: the error that leaves the call has no status code and has the
  connectivity flag set.\<close>

theorem bad_gateway_with_string_error:
  "request (always (Response 502 (Inr (JDict [(''error'', JStr ''Bad Gateway'')]))))
     3 RETRY_BACKOFFS ''GET'' ''/intake/v/submissions/s1'' JNull =
   ([HttpRequest, Sleep (1 / 2), HttpRequest, Sleep 1, HttpRequest, Sleep 2, HttpRequest],
    Inl (FormBridge \<lparr>message = JStr (''Unexpected error: '' @
                          no_attribute (JStr ''Bad Gateway'') ''get''),
                      status_code = None, error_type = JNull,
                      is_connectivity_error = True, response_data = JNull\<rparr>))"
  by (simp add: run_defs connectivity_error_def FormBridgeError_def)

text \<open>C2, as amended. For \<open>max_retries = R \<ge> 0\<close>, if every attempt ends in a connection
  error, \<^verbatim>\<open>_request\<close> retries once for each back-off of the slice of the table \<open>B\<close>, so it
  makes exactly \<open>min R (len B) + 1\<close> attempts (with the default table \<open>min R 3 + 1\<close>, which
  is \<open>R + 1\<close> only up to \<open>R = 3\<close>), and then raises a \<^verbatim>\<open>FormBridgeError\<close> whose connectivity
  flag is set and whose status code is \<^verbatim>\<open>None\<close>.\<close>

theorem connection_failures_exhaust_backoffs:
  assumes "0 \<le> R" and "\<forall>k. \<exists>exc. http m p j k = ConnectFailure exc"
  shows "fst (request http R B m p j) = retry_trace (take (nat R) B) \<and>
         http_attempts (fst (request http R B m p j)) = min (nat R) (length B) + 1 \<and>
         (\<exists>e. snd (request http R B m p j) = Inl (FormBridge e) \<and>
              is_connectivity_error e \<and> status_code e = None)"
proof -
  obtain a where a: "a \<le> length (slice_to B R)"
    "\<not> retried (http m p j a) \<or> a = length (slice_to B R)"
    "request http R B m p j =
       (retry_trace (take a (slice_to B R)), after_loop (terminal_exit (http m p j a)))"
    using request_run[of B R http m p j] by blast
  from assms(2) obtain exc where exc: "http m p j a = ConnectFailure exc" by blast
  with a(2) have "a = length (slice_to B R)" by simp
  with a(3) exc assms(1) show ?thesis
    by (simp add: slice_to_nonneg http_attempts_retry_trace terminal_exit_def after_loop_def
        connectivity_error_def FormBridgeError_def min_def)
qed

text \<open>Five retries configured, the default table, a connection refused every time: three
  sleeps and four attempts.\<close>

theorem connection_failures_exhaust_backoffs_witness:
  "fst (request (always (ConnectFailure ''refused'')) 5 RETRY_BACKOFFS
      ''GET'' ''/intake/v/submissions/s1'' JNull) =
     [HttpRequest, Sleep (1 / 2), HttpRequest, Sleep 1, HttpRequest, Sleep 2, HttpRequest] \<and>
   http_attempts (fst (request (always (ConnectFailure ''refused'')) 5 RETRY_BACKOFFS
      ''GET'' ''/intake/v/submissions/s1'' JNull)) = 4 \<and>
   (\<exists>e. snd (request (always (ConnectFailure ''refused'')) 5 RETRY_BACKOFFS
      ''GET'' ''/intake/v/submissions/s1'' JNull) = Inl (FormBridge e) \<and>
        is_connectivity_error e \<and> status_code e = None)"
  using connection_failures_exhaust_backoffs[where R = 5
      and http = "always (ConnectFailure ''refused'')" and m = "''GET''"
      and p = "''/intake/v/submissions/s1''" and j = JNull and B = RETRY_BACKOFFS]
  by (simp add: always_def RETRY_BACKOFFS_def)

text \<open>C2 as stated fails: with \<open>max_retries = 5\<close> and the default table, a connection that
  is refused every time gets 4 attempts, not 6.\<close>

theorem connection_failures_counterexample:
  "http_attempts (fst (request (always (ConnectFailure ''refused'')) 5 RETRY_BACKOFFS
      ''GET'' ''/intake/v/submissions/s1'' JNull)) \<noteq> 5 + 1"
  by (simp add: run_defs)

text \<open>C3. The claim asks that a response with a status of 400 or more outside the retryable
  set always ends the call, after one attempt, in an API error that carries the status.
  The code makes the single attempt (\<open>non_retryable_single_attempt\<close>), but for a 401
  whose decoded body is \<^verbatim>\<open>{"error": "unauthorized"}\<close> the \<^verbatim>\<open>.get\<close> on the string raises,
  the handler \<^verbatim>\<open>except Exception\<close> catches it, and the error that leaves the call has no
  status code and has the connectivity flag set.\<close>

theorem client_error_with_string_error:
  "request (always (Response 401 (Inr (JDict [(''error'', JStr ''unauthorized'')]))))
     3 RETRY_BACKOFFS ''GET'' ''/intake/v/submissions/s1'' JNull =
   ([HttpRequest],
    Inl (FormBridge \<lparr>message = JStr (''Unexpected error: '' @
                          no_attribute (JStr ''unauthorized'') ''get''),
                      status_code = None, error_type = JNull,
                      is_connectivity_error = True, response_data = JNull\<rparr>))"
  by (simp add: run_defs connectivity_error_def FormBridgeError_def)

text \<open>C4. If the call reaches attempt \<open>a\<close> (it makes more than \<open>a\<close> attempts) and that attempt
  gets a response with a status below 400 and a body that decodes, the call stops there:
  it makes exactly \<open>a + 1\<close> attempts, with the back-off sleeps between them, and returns the
  decoded body; such an \<open>a\<close> is at most the number of back-offs in use, hence at most
  \<open>max_retries\<close> (and \<open>attempt_reached\<close> says when attempt \<open>a\<close> is made). In particular, with \<open>max_retries = 3\<close>, the default back-offs and the
  responses 429, 429, 200 with body \<^verbatim>\<open>{"submissionId": "s1"}\<close>, \<^verbatim>\<open>get_submission\<close> succeeds
  after exactly 3 attempts and the submission's \<^verbatim>\<open>submission_id\<close> is \<^verbatim>\<open>"s1"\<close>.\<close>

theorem success_stops_retrying:
  assumes "a < http_attempts (fst (request http R B m p j))"
    and "http m p j a = Response s (Inr d)" and "s < 400"
  shows "request http R B m p j = (retry_trace (take a (slice_to B R)), Inr d) \<and>
         http_attempts (fst (request http R B m p j)) = a + 1 \<and>
         a \<le> length (slice_to B R) \<and>
         (http ''GET'' (''/intake/'' @ iid @ ''/submissions/'' @ sid) JNull 0 = Response 429 b0 \<and>
          http ''GET'' (''/intake/'' @ iid @ ''/submissions/'' @ sid) JNull 1 = Response 429 b1 \<and>
          http ''GET'' (''/intake/'' @ iid @ ''/submissions/'' @ sid) JNull 2 =
            Response 200 (Inr (JDict [(''submissionId'', JStr ''s1'')])) \<longrightarrow>
          (\<exists>sub. get_submission http 3 RETRY_BACKOFFS iid sid =
                   ([HttpRequest, Sleep (1 / 2), HttpRequest, Sleep 1, HttpRequest], Inr sub) \<and>
                 submission_id sub = JStr ''s1''))"
proof -
  have stop: "request http' R' B' m' p' j' = (retry_trace (take a' (slice_to B' R')), Inr d') \<and>
         http_attempts (fst (request http' R' B' m' p' j')) = a' + 1 \<and>
         a' \<le> length (slice_to B' R')"
    if reached: "a' < http_attempts (fst (request http' R' B' m' p' j'))"
      and resp: "http' m' p' j' a' = Response s' (Inr d')" and ok: "s' < 400"
    for http' R' B' m' p' j' a' s' d'
  proof -
    let ?bs = "slice_to B' R'"
    obtain k where k: "k \<le> length ?bs" "\<forall>i<k. retried (http' m' p' j' i)"
      "request http' R' B' m' p' j' =
         (retry_trace (take k ?bs), after_loop (terminal_exit (http' m' p' j' k)))"
      using request_run[of B' R' http' m' p' j'] by blast
    have n: "http_attempts (fst (request http' R' B' m' p' j')) = k + 1"
      using k(1,3) by (simp add: http_attempts_retry_trace min_def)
    have "\<not> retried (http' m' p' j' a')"
      using resp ok by (simp add: not_retryable_below_400)
    with k(2) have "\<not> a' < k" by blast
    with reached n have "a' = k" by simp
    with k(1,3) n resp ok show ?thesis
      by (simp add: terminal_exit_def handle_response_success after_loop_def)
  qed
  have scenario: "\<exists>sub. get_submission http 3 RETRY_BACKOFFS iid sid =
                   ([HttpRequest, Sleep (1 / 2), HttpRequest, Sleep 1, HttpRequest], Inr sub) \<and>
                 submission_id sub = JStr ''s1''"
    if sc: "http ''GET'' (''/intake/'' @ iid @ ''/submissions/'' @ sid) JNull 0 = Response 429 b0 \<and>
          http ''GET'' (''/intake/'' @ iid @ ''/submissions/'' @ sid) JNull 1 = Response 429 b1 \<and>
          http ''GET'' (''/intake/'' @ iid @ ''/submissions/'' @ sid) JNull 2 =
            Response 200 (Inr (JDict [(''submissionId'', JStr ''s1'')]))"
  proof -
    let ?send = "http ''GET'' (''/intake/'' @ iid @ ''/submissions/'' @ sid) JNull"
    have "request_loop ?send (slice_to RETRY_BACKOFFS 3) 0 None =
        (retry_trace (take (2 - 0) (drop 0 (slice_to RETRY_BACKOFFS 3))), terminal_exit (?send 2))"
    proof (intro loop_run)
      fix k :: nat assume "0 \<le> k" "k < 2"
      then have "k = 0 \<or> k = 1" by auto
      with sc show "retried (?send k)" by (auto simp: RETRYABLE_STATUS_def)
    next
      from sc show "\<not> retried (?send 2) \<or> 2 = length (slice_to RETRY_BACKOFFS 3)"
        by (simp add: RETRYABLE_STATUS_def)
    qed (simp_all add: slice_to_def RETRY_BACKOFFS_def)
    with sc show ?thesis
      by (simp add: get_submission_def request_def slice_to_def RETRY_BACKOFFS_def
          terminal_exit_def handle_response_def after_loop_def dict_get_def)
  qed
  from stop[OF assms] scenario show ?thesis by blast
qed

text \<open>The run of that scenario, with the 429 bodies of the test \<^verbatim>\<open>test_retry_on_429\<close>.\<close>

theorem success_stops_retrying_witness:
  "request
     (scripted [Response 429 (Inr (JDict [(''ok'', JBool False),
                   (''error'', JDict [(''type'', JStr ''rate_limited'')])])),
                Response 429 (Inr (JDict [(''ok'', JBool False),
                   (''error'', JDict [(''type'', JStr ''rate_limited'')])]))]
        (Response 200 (Inr (JDict [(''submissionId'', JStr ''s1'')]))))
     3 RETRY_BACKOFFS ''GET'' ''/intake/v/submissions/s1'' JNull =
     ([HttpRequest, Sleep (1 / 2), HttpRequest, Sleep 1, HttpRequest],
      Inr (JDict [(''submissionId'', JStr ''s1'')])) \<and>
   (\<exists>sub. get_submission
     (scripted [Response 429 (Inr (JDict [(''ok'', JBool False),
                   (''error'', JDict [(''type'', JStr ''rate_limited'')])])),
                Response 429 (Inr (JDict [(''ok'', JBool False),
                   (''error'', JDict [(''type'', JStr ''rate_limited'')])]))]
        (Response 200 (Inr (JDict [(''submissionId'', JStr ''s1'')]))))
     3 RETRY_BACKOFFS ''v'' ''s1'' =
       ([HttpRequest, Sleep (1 / 2), HttpRequest, Sleep 1, HttpRequest], Inr sub) \<and>
     submission_id sub = JStr ''s1'')"
proof -
  let ?b = "Inr (JDict [(''ok'', JBool False),
                   (''error'', JDict [(''type'', JStr ''rate_limited'')])]) :: string + json"
  let ?http = "scripted [Response 429 ?b, Response 429 ?b]
        (Response 200 (Inr (JDict [(''submissionId'', JStr ''s1'')])))"
  have tr: "fst (request ?http 3 RETRY_BACKOFFS ''GET'' ''/intake/v/submissions/s1'' JNull) =
      [HttpRequest, Sleep (1 / 2), HttpRequest, Sleep 1, HttpRequest]"
    by (simp add: run_defs)
  have reached: "2 < http_attempts (fst (request ?http 3 RETRY_BACKOFFS ''GET''
          ''/intake/v/submissions/s1'' JNull))"
    by (simp add: tr)
  have resp: "?http ''GET'' ''/intake/v/submissions/s1'' JNull 2 =
      Response 200 (Inr (JDict [(''submissionId'', JStr ''s1'')]))"
    by (simp add: scripted_def)
  have r0: "?http ''GET'' (''/intake/'' @ ''v'' @ ''/submissions/'' @ ''s1'') JNull 0 = Response 429 ?b"
    and r1: "?http ''GET'' (''/intake/'' @ ''v'' @ ''/submissions/'' @ ''s1'') JNull 1 = Response 429 ?b"
    and r2: "?http ''GET'' (''/intake/'' @ ''v'' @ ''/submissions/'' @ ''s1'') JNull 2 =
      Response 200 (Inr (JDict [(''submissionId'', JStr ''s1'')]))"
    by (simp_all add: scripted_def)
  have sl: "take 2 (slice_to RETRY_BACKOFFS 3) = [1 / 2, 1]"
    by (simp add: slice_to_def RETRY_BACKOFFS_def)
  have "(200::int) < 400" by simp
  note inst = success_stops_retrying[where http = ?http and R = 3 and B = RETRY_BACKOFFS
      and m = "''GET''" and p = "''/intake/v/submissions/s1''" and j = JNull and a = 2
      and s = 200 and d = "JDict [(''submissionId'', JStr ''s1'')]"
      and iid = "''v''" and sid = "''s1''" and ?b0.0 = ?b and ?b1.0 = ?b, OF reached resp this]
  from inst have "request ?http 3 RETRY_BACKOFFS ''GET'' ''/intake/v/submissions/s1'' JNull =
      (retry_trace (take 2 (slice_to RETRY_BACKOFFS 3)), Inr (JDict [(''submissionId'', JStr ''s1'')]))"
    by (rule conjunct1)
  then have A: "request ?http 3 RETRY_BACKOFFS ''GET'' ''/intake/v/submissions/s1'' JNull =
      ([HttpRequest, Sleep (1 / 2), HttpRequest, Sleep 1, HttpRequest],
       Inr (JDict [(''submissionId'', JStr ''s1'')]))"
    unfolding sl by simp
  from inst r0 r1 r2 have B: "\<exists>sub. get_submission ?http 3 RETRY_BACKOFFS ''v'' ''s1'' =
       ([HttpRequest, Sleep (1 / 2), HttpRequest, Sleep 1, HttpRequest], Inr sub) \<and>
     submission_id sub = JStr ''s1''"
    by blast
  from A B show ?thesis by (rule conjI)
qed

text \<open>C5, as amended. Every call ends in a returned body or in a \<^verbatim>\<open>FormBridgeError\<close>: no
  other exception leaves \<^verbatim>\<open>_request\<close>. An error whose connectivity flag is set carries no
  status code. And unless the last attempt made got a response whose body does not
  decode, or an error response whose decoded body has an \<^verbatim>\<open>error\<close> entry that is not a
  dict (that is, when its outcome is conforming), such an error is raised only if that
  last attempt produced no HTTP response: it ended in a connection error with no back-off
  left, or in some other exception (which is never retried). Attempts before the last
  one may well have produced (retryable) responses. Nothing is said here about the
  responses left out.\<close>

theorem connectivity_flag_meaning:
  "((\<exists>d. snd (request http R B m p j) = Inr d) \<or>
    (\<exists>e. snd (request http R B m p j) = Inl (FormBridge e))) \<and>
   (snd (request http R B m p j) = Inl (FormBridge e) \<and> is_connectivity_error e \<longrightarrow>
      status_code e = None) \<and>
   (snd (request http R B m p j) = Inl (FormBridge e) \<and> is_connectivity_error e \<and>
    conforming (http m p j (http_attempts (fst (request http R B m p j)) - 1)) \<longrightarrow>
      (\<exists>exc. http m p j (http_attempts (fst (request http R B m p j)) - 1) = ConnectFailure exc \<and>
             http_attempts (fst (request http R B m p j)) = length (slice_to B R) + 1) \<or>
      (\<exists>exc. http m p j (http_attempts (fst (request http R B m p j)) - 1) = OtherFailure exc))"
proof -
  let ?bs = "slice_to B R"
  obtain a where a: "a \<le> length ?bs"
    "\<not> retried (http m p j a) \<or> a = length ?bs"
    "request http R B m p j =
       (retry_trace (take a ?bs), after_loop (terminal_exit (http m p j a)))"
    using request_run[of B R http m p j] by blast
  have n: "http_attempts (fst (request http R B m p j)) = a + 1"
    using a(1,3) by (simp add: http_attempts_retry_trace min_def)
  have uniform: "(\<exists>d. snd (request http R B m p j) = Inr d) \<or>
    (\<exists>e. snd (request http R B m p j) = Inl (FormBridge e))"
    using after_terminal_cases[of "http m p j a"] a(3) by simp
  have nostatus: "status_code e = None"
    if "snd (request http R B m p j) = Inl (FormBridge e) \<and> is_connectivity_error e"
    using that a(3) flagged_no_status[of "http m p j a" e] by simp
  have last: "(\<exists>exc. http m p j (http_attempts (fst (request http R B m p j)) - 1) = ConnectFailure exc \<and>
             http_attempts (fst (request http R B m p j)) = length ?bs + 1) \<or>
      (\<exists>exc. http m p j (http_attempts (fst (request http R B m p j)) - 1) = OtherFailure exc)"
    if h: "snd (request http R B m p j) = Inl (FormBridge e) \<and> is_connectivity_error e \<and>
       conforming (http m p j (http_attempts (fst (request http R B m p j)) - 1))"
  proof -
    from h a(3) n have "after_loop (terminal_exit (http m p j a)) = Inl (FormBridge e)"
      "is_connectivity_error e" "conforming (http m p j a)" by simp_all
    then have nr: "\<not> is_response (http m p j a)" by (rule flagged_no_response)
    show ?thesis
    proof (cases "http m p j a")
      case (Response s body)
      with nr show ?thesis by simp
    next
      case (ConnectFailure exc)
      with a(2) have "a = length ?bs" by simp
      with ConnectFailure n show ?thesis by simp
    next
      case (OtherFailure exc)
      with n show ?thesis by simp
    qed
  qed
  from uniform nostatus last show ?thesis by blast
qed

text \<open>A connection refused at every attempt, three retries configured.\<close>

theorem connectivity_flag_meaning_witness:
  "(\<exists>e. snd (request (always (ConnectFailure ''refused'')) 3 RETRY_BACKOFFS
           ''GET'' ''/intake/v/submissions/s1'' JNull) = Inl (FormBridge e) \<and>
        is_connectivity_error e \<and> status_code e = None) \<and>
   http_attempts (fst (request (always (ConnectFailure ''refused'')) 3 RETRY_BACKOFFS
           ''GET'' ''/intake/v/submissions/s1'' JNull)) = length (slice_to RETRY_BACKOFFS 3) + 1"
proof -
  let ?http = "always (ConnectFailure ''refused'')"
  let ?e = "connectivity_error ''Connection failed: refused''"
  let ?n = "http_attempts (fst (request ?http 3 RETRY_BACKOFFS ''GET''
            ''/intake/v/submissions/s1'' JNull))"
  have r: "snd (request ?http 3 RETRY_BACKOFFS ''GET'' ''/intake/v/submissions/s1'' JNull) =
      Inl (FormBridge ?e)"
    by (simp add: run_defs)
  have f: "is_connectivity_error ?e"
    by (simp add: connectivity_error_def FormBridgeError_def)
  have c: "conforming (?http ''GET'' ''/intake/v/submissions/s1'' JNull (?n - 1))"
    by (simp add: always_def)
  note inst = connectivity_flag_meaning[where http = ?http and R = 3 and B = RETRY_BACKOFFS
      and m = "''GET''" and p = "''/intake/v/submissions/s1''" and j = JNull and e = ?e]
  from inst r f have s: "status_code ?e = None" by blast
  from inst r f c have
    "(\<exists>exc. ?http ''GET'' ''/intake/v/submissions/s1'' JNull (?n - 1) = ConnectFailure exc \<and>
      ?n = length (slice_to RETRY_BACKOFFS 3) + 1) \<or>
     (\<exists>exc. ?http ''GET'' ''/intake/v/submissions/s1'' JNull (?n - 1) = OtherFailure exc)"
    by blast
  then have "?n = length (slice_to RETRY_BACKOFFS 3) + 1"
    by (auto simp: always_def)
  with r f s show ?thesis by blast
qed

text \<open>C5 as stated fails: with one retry configured, a 502 response followed by a refused
  connection ends in an error whose connectivity flag is set, although the first attempt
  did produce an HTTP response.\<close>

theorem connectivity_flag_counterexample:
  "\<not> (connectivity_raised (snd (request
           (scripted [Response 502 (Inr JNull)] (ConnectFailure ''refused''))
           1 RETRY_BACKOFFS ''GET'' ''/intake/v/submissions/s1'' JNull)) \<longrightarrow>
       (\<forall>k < http_attempts (fst (request
           (scripted [Response 502 (Inr JNull)] (ConnectFailure ''refused''))
           1 RETRY_BACKOFFS ''GET'' ''/intake/v/submissions/s1'' JNull)).
          \<not> is_response (scripted [Response 502 (Inr JNull)] (ConnectFailure ''refused'')
             ''GET'' ''/intake/v/submissions/s1'' JNull k)))"
proof -
  let ?http = "scripted [Response 502 (Inr JNull)] (ConnectFailure ''refused'')"
  have r: "request ?http 1 RETRY_BACKOFFS ''GET'' ''/intake/v/submissions/s1'' JNull =
      ([HttpRequest, Sleep (1 / 2), HttpRequest],
       Inl (FormBridge (connectivity_error ''Connection failed: refused'')))"
    by (simp add: run_defs)
  have "connectivity_raised (snd (request ?http 1 RETRY_BACKOFFS ''GET''
      ''/intake/v/submissions/s1'' JNull))"
    by (simp add: r connectivity_raised_def connectivity_error_def FormBridgeError_def)
  moreover have "0 < http_attempts (fst (request ?http 1 RETRY_BACKOFFS ''GET''
      ''/intake/v/submissions/s1'' JNull))"
    by (simp add: r)
  moreover have "is_response (?http ''GET'' ''/intake/v/submissions/s1'' JNull 0)"
    by (simp add: scripted_def)
  ultimately show ?thesis by blast
qed

text \<open>C6. The claim asks for an API error with the status, the envelope's type and message
  and the decoded body, for every decoded body. The code does so when the body is not a
  dict or its \<^verbatim>\<open>error\<close> entry is absent or a dict (\<open>api_error_of_non_dict\<close>,
  \<open>api_error_of_envelope\<close>); for a 404 whose decoded body is \<^verbatim>\<open>{"error": "Not Found"}\<close>
  it raises instead the wrapped \<^verbatim>\<open>AttributeError\<close>: no status code, no response data, the
  connectivity flag set.\<close>

theorem api_error_with_string_error:
  "handle_response 404 (Inr (JDict [(''error'', JStr ''Not Found'')])) =
     Raise \<lparr>message = JStr (''Unexpected error: '' @ no_attribute (JStr ''Not Found'') ''get''),
            status_code = None, error_type = JNull,
            is_connectivity_error = True, response_data = JNull\<rparr> \<and>
   snd (request (always (Response 404 (Inr (JDict [(''error'', JStr ''Not Found'')]))))
     3 RETRY_BACKOFFS ''GET'' ''/intake/v/submissions/s1'' JNull) =
     Inl (FormBridge \<lparr>message = JStr (''Unexpected error: '' @
                          no_attribute (JStr ''Not Found'') ''get''),
            status_code = None, error_type = JNull,
            is_connectivity_error = True, response_data = JNull\<rparr>)"
  by (simp add: run_defs connectivity_error_def FormBridgeError_def)

text \<open>C7. When the request of \<^verbatim>\<open>create_submission\<close> returns a dict in which \<^verbatim>\<open>intakeId\<close> is
  absent or the empty string, the result is the parsed submission with its \<^verbatim>\<open>intake_id\<close>
  replaced by the caller's argument, every other field as parsed.\<close>

theorem create_submission_fills_intake_id:
  assumes "request http R B ''POST'' (''/intake/'' @ iid @ ''/submissions'')
             (create_body flds act idempotency_key) = (evs, Inr (JDict data))"
    and "map_of data ''intakeId'' = None \<or> map_of data ''intakeId'' = Some (JStr [])"
  shows "\<exists>sub. from_response (JDict data) = Inr sub \<and>
           create_submission http R B iid flds act idempotency_key =
             (evs, Inr (sub\<lparr>intake_id := JStr iid\<rparr>))"
proof -
  from assms(2) have "dict_get data ''intakeId'' (JStr []) = JStr []"
    by (auto simp: dict_get_def)
  with assms(1) show ?thesis
    by (simp add: create_submission_def)
qed

text \<open>The run of the test \<^verbatim>\<open>test_create_submission_success\<close> (without the actor).\<close>

theorem create_submission_fills_intake_id_witness:
  "create_submission
     (always (Response 201 (Inr (JDict [(''ok'', JBool True), (''submissionId'', JStr ''sub_123''),
        (''state'', JStr ''in_progress''), (''resumeToken'', JStr ''tok_abc'')]))))
     3 RETRY_BACKOFFS ''vendor'' (JDict [(''company'', JStr ''Acme'')]) None (Some ''idem-1'') =
   ([HttpRequest],
    Inr \<lparr>submission_id = JStr ''sub_123'', intake_id = JStr ''vendor'',
         state = JStr ''in_progress'', resume_token = JStr ''tok_abc'', fields_sub = JDict [],
         missing_fields = JNull, schema = JNull, created_at = JNull, updated_at = JNull,
         raw = JDict [(''ok'', JBool True), (''submissionId'', JStr ''sub_123''),
           (''state'', JStr ''in_progress''), (''resumeToken'', JStr ''tok_abc'')]\<rparr>)"
proof -
  let ?data = "[(''ok'', JBool True), (''submissionId'', JStr ''sub_123''),
        (''state'', JStr ''in_progress''), (''resumeToken'', JStr ''tok_abc'')]"
  let ?http = "always (Response 201 (Inr (JDict ?data)))"
  let ?flds = "JDict [(''company'', JStr ''Acme'')]"
  have r: "request ?http 3 RETRY_BACKOFFS ''POST'' (''/intake/'' @ ''vendor'' @ ''/submissions'')
             (create_body ?flds None (Some ''idem-1'')) = ([HttpRequest], Inr (JDict ?data))"
    by (simp add: run_defs)
  have absent: "map_of ?data ''intakeId'' = None \<or> map_of ?data ''intakeId'' = Some (JStr [])"
    by simp
  note inst = create_submission_fills_intake_id[where http = ?http and R = 3
      and B = RETRY_BACKOFFS and iid = "''vendor''" and flds = ?flds and act = None
      and idempotency_key = "Some ''idem-1''" and evs = "[HttpRequest]" and data = ?data,
      OF r absent]
  then show ?thesis by (auto simp: dict_get_def)
qed

text \<open>C8. The code after the loop of \<^verbatim>\<open>_request\<close> is unreachable: whatever the
  transport does and whatever the back-off list is, the loop started at attempt 0 never
  falls through; every iteration returns, raises, or continues to an iteration that
  exists.\<close>

theorem post_loop_unreachable:
  "snd (request_loop send backoffs 0 None) \<noteq> Exhausted last_exc"
proof -
  obtain a where "a \<le> length backoffs" "\<forall>k<a. retried (send k)"
      "\<not> retried (send a) \<or> a = length backoffs"
    using stop_index[of "length backoffs" send] by blast
  then have "request_loop send backoffs 0 None =
      (retry_trace (take (a - 0) (drop 0 backoffs)), terminal_exit (send a))"
    by (intro loop_run) auto
  then show ?thesis by (simp add: terminal_exit_not_exhausted)
qed

text \<open>C10. For \<open>max_retries = R \<ge> 0\<close> and the default table, the back-offs that \<^verbatim>\<open>_request\<close>
  uses are the first \<open>min R 3\<close> entries of \<open>[0.5, 1.0, 2.0]\<close>: the events of a call are
  attempts separated by sleeps of the first \<open>k\<close> of them, in order, for some \<open>k \<le> min R 3\<close>,
  and of all \<open>min R 3\<close> of them when every attempt is retried. So a call makes at most
  \<open>min R 3 + 1\<close> attempts, never more than 4, and with \<open>max_retries = 0\<close> exactly one, with no
  sleep.\<close>

theorem default_backoffs_bound:
  assumes "0 \<le> R"
  shows "slice_to RETRY_BACKOFFS R = take (min (nat R) 3) [1 / 2, 1, 2] \<and>
         (\<exists>k. k \<le> min (nat R) 3 \<and>
            fst (request http R RETRY_BACKOFFS m p j) = retry_trace (take k [1 / 2, 1, 2]) \<and>
            http_attempts (fst (request http R RETRY_BACKOFFS m p j)) = k + 1) \<and>
         ((\<forall>k. retried (http m p j k)) \<longrightarrow>
            fst (request http R RETRY_BACKOFFS m p j) =
              retry_trace (take (min (nat R) 3) [1 / 2, 1, 2])) \<and>
         http_attempts (fst (request http R RETRY_BACKOFFS m p j)) \<le> min (nat R) 3 + 1 \<and>
         http_attempts (fst (request http R RETRY_BACKOFFS m p j)) \<le> 4 \<and>
         fst (request http 0 RETRY_BACKOFFS m p j) = [HttpRequest]"
proof -
  let ?bs = "slice_to RETRY_BACKOFFS R"
  have sl: "?bs = take (min (nat R) 3) [1 / 2, 1, 2]"
    using assms by (simp add: slice_to_nonneg RETRY_BACKOFFS_def min_def)
  then have len: "length ?bs = min (nat R) 3" by simp
  obtain a where a: "a \<le> length ?bs"
    "\<not> retried (http m p j a) \<or> a = length ?bs"
    "request http R RETRY_BACKOFFS m p j =
       (retry_trace (take a ?bs), after_loop (terminal_exit (http m p j a)))"
    using request_run[of RETRY_BACKOFFS R http m p j] by blast
  have am: "a \<le> min (nat R) 3" using a(1) len by simp
  have "take a ?bs = take a [1 / 2, 1, 2]"
    using am by (simp add: sl min_def)
  with a(3) have tr: "fst (request http R RETRY_BACKOFFS m p j) =
      retry_trace (take a [1 / 2, 1, 2])" by simp
  have "length (take a [1 / 2, 1, 2 :: real]) = a" using am by simp
  with tr have n: "http_attempts (fst (request http R RETRY_BACKOFFS m p j)) = a + 1"
    by (simp only: http_attempts_retry_trace)
  have shape: "\<exists>k. k \<le> min (nat R) 3 \<and>
            fst (request http R RETRY_BACKOFFS m p j) = retry_trace (take k [1 / 2, 1, 2]) \<and>
            http_attempts (fst (request http R RETRY_BACKOFFS m p j)) = k + 1"
    using am tr n by blast
  have full: "fst (request http R RETRY_BACKOFFS m p j) =
              retry_trace (take (min (nat R) 3) [1 / 2, 1, 2])"
    if "\<forall>k. retried (http m p j k)"
  proof -
    from that a(2) have "a = length ?bs" by simp
    with len tr show ?thesis by simp
  qed
  obtain b where b: "b \<le> length (slice_to RETRY_BACKOFFS 0)"
    "request http 0 RETRY_BACKOFFS m p j =
       (retry_trace (take b (slice_to RETRY_BACKOFFS 0)),
        after_loop (terminal_exit (http m p j b)))"
    using request_run[of RETRY_BACKOFFS 0 http m p j] by blast
  then have zero: "fst (request http 0 RETRY_BACKOFFS m p j) = [HttpRequest]"
    by (simp add: slice_to_def)
  have bound: "http_attempts (fst (request http R RETRY_BACKOFFS m p j)) \<le> min (nat R) 3 + 1"
    using n am by simp
  then have four: "http_attempts (fst (request http R RETRY_BACKOFFS m p j)) \<le> 4"
    by simp
  from sl shape full bound four zero show ?thesis by blast
qed

text \<open>Five retries configured and a connection refused every time: three back-offs, the
  sleeps 0.5, 1 and 2 between four attempts; none configured: one attempt.\<close>

theorem default_backoffs_bound_witness:
  "slice_to RETRY_BACKOFFS 5 = [1 / 2, 1, 2] \<and>
   fst (request (always (ConnectFailure ''refused'')) 5 RETRY_BACKOFFS
      ''GET'' ''/intake/v/submissions/s1'' JNull) =
     [HttpRequest, Sleep (1 / 2), HttpRequest, Sleep 1, HttpRequest, Sleep 2, HttpRequest] \<and>
   http_attempts (fst (request (always (ConnectFailure ''refused'')) 5 RETRY_BACKOFFS
      ''GET'' ''/intake/v/submissions/s1'' JNull)) \<le> 4 \<and>
   fst (request (always (ConnectFailure ''refused'')) 0 RETRY_BACKOFFS
      ''GET'' ''/intake/v/submissions/s1'' JNull) = [HttpRequest]"
proof -
  let ?http = "always (ConnectFailure ''refused'')"
  have all: "\<forall>k. retried (?http ''GET'' ''/intake/v/submissions/s1'' JNull k)"
    by (simp add: always_def)
  have "(0::int) \<le> 5" by simp
  note inst = default_backoffs_bound[where R = 5 and http = ?http and m = "''GET''"
      and p = "''/intake/v/submissions/s1''" and j = JNull, OF this]
  from inst all have "fst (request ?http 5 RETRY_BACKOFFS ''GET''
      ''/intake/v/submissions/s1'' JNull) = retry_trace (take (min (nat 5) 3) [1 / 2, 1, 2])"
    by blast
  then have "fst (request ?http 5 RETRY_BACKOFFS ''GET'' ''/intake/v/submissions/s1'' JNull) =
     [HttpRequest, Sleep (1 / 2), HttpRequest, Sleep 1, HttpRequest, Sleep 2, HttpRequest]"
    by simp
  with inst show ?thesis by simp
qed

end
